theory Spec2Isabelle
  imports Complex_Main
begin

section \<open>NumPy arrays\<close>

text \<open>
  A one-dimensional array of floats is a list of reals, a two-dimensional one the list of
  its rows. Floating-point numbers are idealised as reals throughout. The arithmetic
  operators act elementwise, as NumPy's do; a scalar operand is written with
  \<open>*\<^sub>R\<close> and \<open>/\<^sub>R\<close>. Where NumPy refuses operands whose shapes do not fit,
  \<open>map2\<close> stops at the shorter one: the statements below are made for arrays of the shapes
  the constructors allocate (\<open>shapes_ok\<close>), where both agree.
\<close>

type_synonym vec = "real list"
type_synonym mat = "real list list"

instantiation list :: (plus) plus
begin
definition plus_list :: "'a list \<Rightarrow> 'a list \<Rightarrow> 'a list" where
  "plus_list xs ys = map2 (+) xs ys"
instance ..
end

instantiation list :: (minus) minus
begin
definition minus_list :: "'a list \<Rightarrow> 'a list \<Rightarrow> 'a list" where
  "minus_list xs ys = map2 (-) xs ys"
instance ..
end

instantiation list :: (uminus) uminus
begin
definition uminus_list :: "'a list \<Rightarrow> 'a list" where
  "uminus_list xs = map uminus xs"
instance ..
end

instantiation list :: (times) times
begin
definition times_list :: "'a list \<Rightarrow> 'a list \<Rightarrow> 'a list" where
  "times_list xs ys = map2 (*) xs ys"
instance ..
end

instantiation list :: (inverse) inverse
begin
definition inverse_list :: "'a list \<Rightarrow> 'a list" where
  "inverse_list xs = map inverse xs"
definition divide_list :: "'a list \<Rightarrow> 'a list \<Rightarrow> 'a list" where
  "divide_list xs ys = map2 (divide) xs ys"
instance ..
end

instantiation list :: (scaleR) scaleR
begin
definition scaleR_list :: "real \<Rightarrow> 'a list \<Rightarrow> 'a list" where
  "scaleR_list c xs = map (scaleR c) xs"
instance ..
end

text \<open>\<^verbatim>\<open>v**n\<close>, \<^verbatim>\<open>np.zeros(n)\<close>, \<^verbatim>\<open>np.zeros((m, n))\<close>, \<^verbatim>\<open>np.diag(v)\<close>,
  \<^verbatim>\<open>np.sum(v)\<close> and \<^verbatim>\<open>np.dot(a, b)\<close> of two vectors.\<close>

definition np_power :: "vec \<Rightarrow> nat \<Rightarrow> vec" where
  "np_power v n = map (\<lambda>a. a ^ n) v"

definition np_zeros :: "nat \<Rightarrow> vec" where
  "np_zeros n = replicate n 0"

definition np_zeros2 :: "nat \<Rightarrow> nat \<Rightarrow> mat" where
  "np_zeros2 m n = replicate m (replicate n 0)"

definition np_diag :: "vec \<Rightarrow> mat" where
  "np_diag v = map (\<lambda>i. map (\<lambda>j. if i = j then v ! i else 0) [0..<length v]) [0..<length v]"

definition np_sum :: "vec \<Rightarrow> real" where
  "np_sum v = sum_list v"

definition np_dot :: "vec \<Rightarrow> vec \<Rightarrow> real" where
  "np_dot a b = np_sum (a * b)"

text \<open>The operator \<^verbatim>\<open>@\<close>: matrix times vector, vector times matrix (also
  \<^verbatim>\<open>np.dot\<close> of a vector and a matrix), matrix times matrix.\<close>

definition ncols :: "mat \<Rightarrow> nat" where
  "ncols M = (case M of [] \<Rightarrow> 0 | row # _ \<Rightarrow> length row)"

definition matvec :: "mat \<Rightarrow> vec \<Rightarrow> vec" where
  "matvec M v = map (\<lambda>row. np_dot row v) M"

definition vecmat :: "vec \<Rightarrow> mat \<Rightarrow> vec" where
  "vecmat v M = map (\<lambda>j. np_sum (map2 (\<lambda>a row. a * row ! j) v M)) [0..<ncols M]"

definition matmul :: "mat \<Rightarrow> mat \<Rightarrow> mat" where
  "matmul A B = map (\<lambda>row. vecmat row B) A"

text \<open>Slices. \<^verbatim>\<open>a[1:-1]\<close> is \<open>interior a\<close>, \<^verbatim>\<open>a[:-1]\<close> is \<open>butlast a\<close>,
  \<^verbatim>\<open>a[-1]\<close> is \<open>last a\<close>; on a matrix they select rows. The assignments
  \<^verbatim>\<open>a[1:-1] = v\<close>, \<^verbatim>\<open>a[:-1] = v\<close>, \<^verbatim>\<open>a[-1] = c\<close>, the column assignment
  \<^verbatim>\<open>A[rows, 0] = v\<close> and the index-array assignment \<^verbatim>\<open>a[idx] = v\<close> return the
  updated array.\<close>

definition interior :: "'a list \<Rightarrow> 'a list" where
  "interior xs = butlast (tl xs)"

definition set_interior :: "'a list \<Rightarrow> 'a list \<Rightarrow> 'a list" where
  "set_interior v xs =
     (case xs of [] \<Rightarrow> [] | a # ys \<Rightarrow> if ys = [] then xs else a # v @ [last ys])"

definition set_butlast :: "'a list \<Rightarrow> 'a list \<Rightarrow> 'a list" where
  "set_butlast v xs = (if xs = [] then [] else v @ [last xs])"

definition set_last :: "'a \<Rightarrow> 'a list \<Rightarrow> 'a list" where
  "set_last c xs = xs[length xs - 1 := c]"

definition set_col0 :: "vec \<Rightarrow> mat \<Rightarrow> mat" where
  "set_col0 v M = map2 (\<lambda>row c. row[0 := c]) M v"

definition np_put :: "nat list \<Rightarrow> vec \<Rightarrow> vec \<Rightarrow> vec" where
  "np_put idx v xs = fold (\<lambda>(i, c) acc. acc[i := c]) (zip idx v) xs"

text \<open>An array whose number of dimensions is not fixed by the attribute that holds it.
  \<^verbatim>\<open>np.block\<close> promotes every block to two dimensions and joins the blocks of a row
  side by side.\<close>

datatype ndarray = Arr0 real | Arr1 vec | Arr2 mat

fun atleast_2d :: "ndarray \<Rightarrow> mat" where
  "atleast_2d (Arr0 c) = [[c]]"
| "atleast_2d (Arr1 v) = [v]"
| "atleast_2d (Arr2 M) = M"

fun hstack :: "mat list \<Rightarrow> mat" where
  "hstack [] = []"
| "hstack [M] = M"
| "hstack (M # Ms) = map2 (@) M (hstack Ms)"

definition np_block :: "ndarray list list \<Rightarrow> mat" where
  "np_block bs = concat (map (\<lambda>brow. hstack (map atleast_2d brow)) bs)"

section \<open>Constitutive models\<close>

text \<open>
  The stress closures of a mechanics model are compiled from a symbolic strain energy by
  the base class, which is not part of the sources; they are taken as given. Each closure
  is a function of the three stretches.
\<close>

record mechanics =
  S_r :: "real \<Rightarrow> real \<Rightarrow> real \<Rightarrow> real"
  S_t :: "real \<Rightarrow> real \<Rightarrow> real \<Rightarrow> real"
  S_z :: "real \<Rightarrow> real \<Rightarrow> real \<Rightarrow> real"
  S_r_r :: "real \<Rightarrow> real \<Rightarrow> real \<Rightarrow> real"
  S_r_t :: "real \<Rightarrow> real \<Rightarrow> real \<Rightarrow> real"
  S_t_r :: "real \<Rightarrow> real \<Rightarrow> real \<Rightarrow> real"
  S_t_t :: "real \<Rightarrow> real \<Rightarrow> real \<Rightarrow> real"
  S_z_z :: "real \<Rightarrow> real \<Rightarrow> real \<Rightarrow> real"

text \<open>Modelled from the spec: the compiled closures are elementwise-vectorized functions
  over the stretch arrays \<open>lam_r\<close>, \<open>lam_t\<close>, with the scalar axial stretch \<open>lam_z\<close>
  (the lambdify step of the base class is missing from the sources).\<close>

definition lambdified :: "(real \<Rightarrow> real \<Rightarrow> real \<Rightarrow> real) \<Rightarrow> vec \<Rightarrow> vec \<Rightarrow> real \<Rightarrow> vec" where
  "lambdified f lam_r lam_t lam_z = map2 (\<lambda>a b. f a b lam_z) lam_r lam_t"

text \<open>Modelled from the spec: \<open>eval_stress(lam_r, lam_t, lam_z) -> (S_r, S_t, S_z)\<close>,
  elementwise over vector stretch inputs (the method of the base class is missing from
  the sources).\<close>

definition eval_stress :: "mechanics \<Rightarrow> vec \<Rightarrow> vec \<Rightarrow> real \<Rightarrow> vec \<times> vec \<times> vec" where
  "eval_stress m lam_r lam_t lam_z =
     (lambdified (S_r m) lam_r lam_t lam_z,
      lambdified (S_t m) lam_r lam_t lam_z,
      lambdified (S_z m) lam_r lam_t lam_z)"

text \<open>\<^verbatim>\<open>FibreReinforcedNH.eval_stress_derivatives\<close>.\<close>

definition eval_stress_derivatives ::
  "mechanics \<Rightarrow> vec \<Rightarrow> vec \<Rightarrow> real \<Rightarrow> mat \<times> mat \<times> vec \<times> mat \<times> mat \<times> vec \<times> vec \<times> vec \<times> vec" where
  "eval_stress_derivatives m lam_r lam_t lam_z =
     (let N = length lam_r in
      (np_diag (lambdified (S_r_r m) lam_r lam_t lam_z),
       np_diag (lambdified (S_r_t m) lam_r lam_t lam_z),
       np_zeros N,
       np_diag (lambdified (S_t_r m) lam_r lam_t lam_z),
       np_diag (lambdified (S_t_t m) lam_r lam_t lam_z),
       np_zeros N,
       np_zeros N,
       np_zeros N,
       lambdified (S_z_z m) lam_r lam_t lam_z))"

text \<open>The permeability model is not part of the sources either: its two methods are
  elementwise functions of the volumetric Jacobian, taken as given.\<close>

record permeability =
  k_of :: "real \<Rightarrow> real"
  k_J_of :: "real \<Rightarrow> real"

definition eval_permeability :: "permeability \<Rightarrow> vec \<Rightarrow> vec" where
  "eval_permeability pm J = map (k_of pm) J"

definition eval_permeability_derivative :: "permeability \<Rightarrow> vec \<Rightarrow> vec" where
  "eval_permeability_derivative pm J = map (k_J_of pm) J"

section \<open>The force-controlled experiment\<close>

text \<open>
  The attributes of a \<^verbatim>\<open>ForceControlled\<close> object that its methods read or write. The
  grid, the operators, the index ranges, the kinematic fields and the blocks \<open>J_uu\<close>,
  \<open>J_pp\<close> are allocated by the base class \<^verbatim>\<open>Experiment\<close>; \<open>physical_F\<close> and
  \<open>physical_lam_z\<close> are the entries \<^verbatim>\<open>"F"\<close> and \<^verbatim>\<open>"lam_z"\<close> of
  \<^verbatim>\<open>pars.physical\<close>.
\<close>

record force_controlled =
  N :: nat
  r :: vec
  w :: vec
  D :: mat
  dt :: real
  ind_u :: "nat list"
  ind_p :: "nat list"
  ind_l :: nat
  lam_r_u :: mat
  lam_t_u :: mat
  J_u :: mat
  J_l :: vec
  mech :: mechanics
  perm :: permeability
  physical_F :: real
  physical_lam_z :: real
  loading :: string
  u :: vec
  p :: vec
  lam_z :: real
  lam_r :: vec
  lam_t :: vec
  J :: vec
  lam_t_old :: vec
  lam_z_old :: real
  F :: real
  fluid_load_fraction :: real
  div_S :: vec
  dLdt :: vec
  F_u :: vec
  F_p :: vec
  F_l :: real
  FUN :: vec
  J_uu :: mat
  J_up :: mat
  J_ul :: mat
  J_pu :: mat
  J_pp :: mat
  J_pl :: mat
  J_lu :: ndarray
  J_lp :: ndarray
  J_ll :: real
  JAC :: mat

text \<open>\<^verbatim>\<open>ForceControlled.__init__\<close>, applied to the object the constructor of the base
  class has set up.\<close>

definition init :: "force_controlled \<Rightarrow> force_controlled" where
  "init s =
     (let s = s\<lparr>loading := ''force''\<rparr>;
          n = N s;
          s = s\<lparr>FUN := np_zeros (2 * n + 1)\<rparr>;
          s = s\<lparr>F_p := np_zeros n\<rparr>;
          s = s\<lparr>J_up := np_zeros2 n n\<rparr>;
          s = s\<lparr>J_ul := np_zeros2 n 1\<rparr>;
          s = s\<lparr>J_pu := np_zeros2 n n\<rparr>;
          s = s\<lparr>J_pl := np_zeros2 n 1\<rparr>;
          s = s\<lparr>J_lu := Arr2 (np_zeros2 1 n)\<rparr>;
          s = s\<lparr>J_lp := Arr2 (np_zeros2 1 n)\<rparr>
      in s)"

text \<open>\<^verbatim>\<open>ForceControlled.build_residual\<close>, statement by statement.\<close>

definition build_residual :: "force_controlled \<Rightarrow> force_controlled" where
  "build_residual s =
     (let (S_r, S_t, S_z) = eval_stress (mech s) (lam_r s) (lam_t s) (lam_z s);
          k = eval_permeability (perm s) (J s);
          s = s\<lparr>div_S := matvec (interior (D s)) S_r
                  + (interior S_r - interior S_t) / interior (r s)\<rparr>;
          s = s\<lparr>dLdt := (1 / dt s) *\<^sub>R
                  (lam_z s *\<^sub>R np_power (lam_t s) 2
                   - lam_z_old s *\<^sub>R np_power (lam_t_old s) 2)\<rparr>;
          s = s\<lparr>F_u := set_interior
                  (interior (r s) /\<^sub>R 2 * interior (dLdt s)
                   - interior k / interior (lam_r s) * div_S s) (F_u s)\<rparr>;
          s = s\<lparr>F_u := (F_u s)[0 := u s ! 0]\<rparr>;
          s = s\<lparr>F_u := set_last (last S_r) (F_u s)\<rparr>;
          s = s\<lparr>F_p := set_butlast
                  (matvec (butlast (D s)) (p s)
                   - butlast (r s) * np_power (butlast (lam_r s)) 2 /\<^sub>R 2
                     / butlast k / butlast (J s) * butlast (dLdt s)) (F_p s)\<rparr>;
          s = s\<lparr>F_p := set_last (last (p s)) (F_p s)\<rparr>;
          s = s\<lparr>F_l := 2 * pi * np_sum (w s * (S_z - lam_r s * lam_t s * p s) * r s)
                  - physical_F s\<rparr>;
          s = s\<lparr>FUN := np_put (ind_u s) (F_u s) (FUN s)\<rparr>;
          s = s\<lparr>FUN := np_put (ind_p s) (F_p s) (FUN s)\<rparr>;
          s = s\<lparr>FUN := (FUN s)[ind_l s := F_l s]\<rparr>
      in s)"

text \<open>\<^verbatim>\<open>ForceControlled.build_jacobian\<close>, statement by statement.\<close>

definition build_jacobian :: "force_controlled \<Rightarrow> force_controlled" where
  "build_jacobian s =
     (let (S_r_r, S_r_t, S_r_z, S_t_r, S_t_t, S_t_z, S_z_r, S_z_t, S_z_z) =
            eval_stress_derivatives (mech s) (lam_r s) (lam_t s) (lam_z s);
          k = eval_permeability (perm s) (J s);
          k_J = eval_permeability_derivative (perm s) (J s);
          s = s\<lparr>J_uu := set_interior
                  (matmul (matmul (interior (np_diag (lam_z s *\<^sub>R r s /\<^sub>R dt s)))
                                  (np_diag (lam_t s)))
                          (lam_t_u s)) (J_uu s)\<rparr>;
          s = s\<lparr>J_uu := set_interior
                  (interior (J_uu s)
                   - matmul (np_diag (div_S s))
                       (matmul (interior (np_diag (k_J / lam_r s))) (J_u s)
                        - matmul (np_diag (interior k / np_power (interior (lam_r s)) 2))
                            (interior (lam_r_u s)))) (J_uu s)\<rparr>;
          s = s\<lparr>J_uu := set_interior
                  (interior (J_uu s)
                   - matmul (np_diag (interior k / interior (lam_r s)))
                       (matmul (interior (D s))
                          (matmul S_r_r (lam_r_u s) + matmul S_r_t (lam_t_u s))
                        + matmul (np_diag (inverse (interior (r s))))
                            (matmul (interior S_r_r) (lam_r_u s)
                             + matmul (interior S_r_t) (lam_t_u s)
                             - matmul (interior S_t_r) (lam_r_u s)
                             - matmul (interior S_t_t) (lam_t_u s)))) (J_uu s)\<rparr>;
          s = s\<lparr>J_ul := set_interior
                  (set_col0
                     (interior (r s) /\<^sub>R 2 /\<^sub>R dt s * np_power (interior (lam_t s)) 2
                      - interior k_J * interior (J_l s) / interior (lam_r s) * div_S s
                      - interior k / interior (lam_r s)
                        * (matvec (interior (D s)) S_r_z
                           + interior (S_r_z - S_t_z) / interior (r s)))
                     (interior (J_ul s))) (J_ul s)\<rparr>;
          s = s\<lparr>J_uu := set_last
                  (vecmat (last S_r_r) (lam_r_u s) + vecmat (last S_r_t) (lam_t_u s))
                  (J_uu s)\<rparr>;
          s = s\<lparr>J_ul := set_last ((last (J_ul s))[0 := last S_r_z]) (J_ul s)\<rparr>;
          s = s\<lparr>J_pu := set_butlast
                  (- (matmul (butlast (np_diag (r s * lam_r s * dLdt s / k / J s)))
                        (lam_r_u s)
                      - matmul (butlast (np_diag
                          (r s * np_power (lam_r s) 2 * k_J * dLdt s /\<^sub>R 2
                           / np_power k 2 / J s))) (J_u s)
                      - matmul (butlast (np_diag
                          (r s * np_power (lam_r s) 2 * dLdt s /\<^sub>R 2
                           / k / np_power (J s) 2))) (J_u s)
                      + matmul (butlast (np_diag
                          (lam_z s *\<^sub>R (r s * np_power (lam_r s) 2 * lam_t s)
                           / k / J s /\<^sub>R dt s))) (lam_t_u s)))
                  (J_pu s)\<rparr>;
          s = s\<lparr>J_pl := set_butlast
                  (set_col0
                     (- butlast
                         (- r s * np_power (lam_r s) 2 * k_J * J_l s /\<^sub>R 2
                            / np_power k 2 / J s * dLdt s
                          - r s * np_power (lam_r s) 2 * J_l s /\<^sub>R 2
                            / k / np_power (J s) 2 * dLdt s
                          + r s * np_power (lam_r s) 2 /\<^sub>R 2
                            / k / J s /\<^sub>R dt s * np_power (lam_t s) 2))
                     (butlast (J_pl s))) (J_pl s)\<rparr>;
          s = s\<lparr>J_lu := Arr1 ((- 2 * pi) *\<^sub>R vecmat (w s)
                  (matmul (np_diag (lam_t s * p s * r s)) (lam_r_u s)
                   + matmul (np_diag (lam_r s * p s * r s)) (lam_t_u s)))\<rparr>;
          s = s\<lparr>J_lp := Arr1 ((- 2 * pi) *\<^sub>R w s * lam_r s * lam_t s * r s)\<rparr>;
          s = s\<lparr>J_ll := 2 * pi * np_sum (w s * S_z_z * r s)\<rparr>;
          s = s\<lparr>JAC := np_block
                  [[Arr2 (J_uu s), Arr2 (J_up s), Arr2 (J_ul s)],
                   [Arr2 (J_pu s), Arr2 (J_pp s), Arr2 (J_pl s)],
                   [J_lu s, J_lp s, Arr0 (J_ll s)]]\<rparr>
      in s)"

text \<open>
  The shapes the constructors allocate for a grid of \<open>N\<close> nodes, with the layout
  \<open>[u; p; lam_z]\<close> of the unknowns, and the invariant of the grid: the first node is
  the centre of the sample, the last one its surface.
\<close>

definition is_matrix :: "nat \<Rightarrow> nat \<Rightarrow> mat \<Rightarrow> bool" where
  "is_matrix m n M \<longleftrightarrow> length M = m \<and> list_all (\<lambda>row. length row = n) M"

definition shapes_ok :: "force_controlled \<Rightarrow> bool" where
  "shapes_ok s \<longleftrightarrow>
     length (r s) = N s \<and> length (w s) = N s \<and> is_matrix (N s) (N s) (D s) \<and>
     ind_u s = [0..<N s] \<and> ind_p s = [N s..<2 * N s] \<and> ind_l s = 2 * N s \<and>
     is_matrix (N s) (N s) (lam_r_u s) \<and> is_matrix (N s) (N s) (lam_t_u s) \<and>
     is_matrix (N s) (N s) (J_u s) \<and> length (J_l s) = N s \<and>
     length (u s) = N s \<and> length (p s) = N s \<and>
     length (lam_r s) = N s \<and> length (lam_t s) = N s \<and> length (J s) = N s \<and>
     length (lam_t_old s) = N s \<and>
     length (F_u s) = N s \<and> length (F_p s) = N s \<and> length (FUN s) = 2 * N s + 1 \<and>
     is_matrix (N s) (N s) (J_uu s) \<and> is_matrix (N s) (N s) (J_up s) \<and>
     is_matrix (N s) 1 (J_ul s) \<and> is_matrix (N s) (N s) (J_pu s) \<and>
     is_matrix (N s) (N s) (J_pp s) \<and> is_matrix (N s) 1 (J_pl s)"

definition grid_ok :: "force_controlled \<Rightarrow> bool" where
  "grid_ok s \<longleftrightarrow> r s \<noteq> [] \<and> r s ! 0 = 0 \<and> last (r s) = 1"

section \<open>Root finders\<close>

text \<open>
  \<^verbatim>\<open>scipy.optimize.root_scalar\<close> and \<^verbatim>\<open>scipy.optimize.root\<close> are library code. A root
  finder is modelled by its strategy: it returns its result, raises, or asks for the value
  of the function at a point and goes on with the answer. Every strategy stops after
  finitely many questions. The function it is given may change the state of the caller
  and may raise; an exception of the function ends the search.
\<close>

datatype exn = TypeError | IndexError | Exception string

datatype ('x, 'y, 'res) solver =
  Return 'res | Raise exn | Query 'x "'y \<Rightarrow> ('x, 'y, 'res) solver"

primrec run_solver ::
  "('x, 'y, 'res) solver \<Rightarrow> ('x \<Rightarrow> 'st \<Rightarrow> exn + 'y \<times> 'st) \<Rightarrow> 'st \<Rightarrow> exn + 'res \<times> 'st" where
  "run_solver (Return res) f s = Inr (res, s)"
| "run_solver (Raise e) f s = Inl e"
| "run_solver (Query a k) f s =
     (case f a s of Inl e \<Rightarrow> Inl e | Inr (y, s') \<Rightarrow> run_solver (k y) f s')"

text \<open>The results of the two root finders, by the attributes the sources read. The
  vector root finder is called on two unknowns only and returns an array of the shape of
  its seed: a pair.\<close>

record root_results =
  converged :: bool
  root :: real

record optimize_result =
  success :: bool
  x :: "real \<times> real"

section \<open>Initial and steady response\<close>

text \<open>The container \<^verbatim>\<open>Solution\<close> is a plain record, by the attributes the sources
  read or write.\<close>

record solution =
  sol_r :: vec
  sol_t :: vec
  sol_u :: vec
  sol_p :: ndarray
  sol_lam_z :: real
  sol_F :: real
  sol_fluid_load_fraction :: real

text \<open>
  \<^verbatim>\<open>steady_response\<close> rebinds the attributes \<open>lam_r\<close>, \<open>lam_t\<close> and \<open>p\<close> to floats,
  where the other methods hold arrays in them: its view of the object is a record of its
  own.
\<close>

record steady_view =
  sv_lam_r :: real
  sv_lam_t :: real
  sv_lam_z :: real
  sv_p :: real
  sv_F :: real
  sv_fluid_load_fraction :: real

text \<open>
  What the methods use of the base class \<^verbatim>\<open>Experiment\<close> and of \<^verbatim>\<open>Solution\<close>,
  neither of them part of the sources: the value \<^verbatim>\<open>compute_force\<close> stores in \<open>F\<close>, the
  value \<^verbatim>\<open>compute_fluid_load_fraction\<close> stores in \<open>fluid_load_fraction\<close> (each as
  it acts on either view of the object), and the object \<^verbatim>\<open>Solution(pars, 0)\<close>.
\<close>

record experiment_base =
  compute_force :: "force_controlled \<Rightarrow> real"
  compute_fluid_load_fraction :: "force_controlled \<Rightarrow> real"
  compute_force_steady :: "force_controlled \<Rightarrow> steady_view \<Rightarrow> real"
  compute_fluid_load_fraction_steady :: "force_controlled \<Rightarrow> steady_view \<Rightarrow> real"
  new_solution :: solution

text \<open>\<^verbatim>\<open>ForceControlled.initial_response\<close>: the helper \<^verbatim>\<open>fun\<close> and the method. The
  method returns what it printed, the solution or \<^verbatim>\<open>None\<close>, and the object.\<close>

definition initial_fun :: "experiment_base \<Rightarrow> real \<Rightarrow> force_controlled \<Rightarrow> real \<times> force_controlled" where
  "initial_fun base lz s =
     (let s = s\<lparr>lam_z := lz\<rparr>;
          s = s\<lparr>lam_r := [1 / sqrt (lam_z s)]\<rparr>;
          s = s\<lparr>lam_t := [1 / sqrt (lam_z s)]\<rparr>;
          s = s\<lparr>u := (1 / sqrt (lam_z s) - 1) *\<^sub>R r s\<rparr>;
          (S_r, S_t, S_z) = eval_stress (mech s) (lam_r s) (lam_t s) (lam_z s);
          s = s\<lparr>p := (1 / sqrt (lam_z s)) *\<^sub>R S_r\<rparr>;
          s = s\<lparr>F := compute_force base s\<rparr>
      in (physical_F s - F s, s))"

definition initial_response ::
  "experiment_base \<Rightarrow> (real \<Rightarrow> real \<Rightarrow> (real, real, root_results) solver) \<Rightarrow> force_controlled
     \<Rightarrow> exn + string list \<times> solution option \<times> force_controlled" where
  "initial_response base scipy_root_scalar s =
     (case run_solver (scipy_root_scalar (physical_lam_z s) (physical_lam_z s * (101 / 100)))
             (\<lambda>lz s. Inr (initial_fun base lz s)) s of
        Inl e \<Rightarrow> Inl e
      | Inr (sol, s) \<Rightarrow>
          if converged sol = True then
            (let s = snd (initial_fun base (root sol) s);
                 s = s\<lparr>fluid_load_fraction := compute_fluid_load_fraction base s\<rparr>;
                 sol = new_solution base;
                 sol = sol\<lparr>sol_u := u s\<rparr>;
                 sol = sol\<lparr>sol_lam_z := lam_z s\<rparr>;
                 sol = sol\<lparr>sol_p := Arr1 (p s)\<rparr>;
                 sol = sol\<lparr>sol_F := F s\<rparr>;
                 sol = sol\<lparr>sol_fluid_load_fraction := fluid_load_fraction s\<rparr>
             in Inr ([], Some sol, s))
          else Inr ([''ERROR: solver for initial response did not converge''], None, s))"

text \<open>\<^verbatim>\<open>ForceControlled.steady_response\<close>: the helper \<^verbatim>\<open>fun\<close> and the method.\<close>

definition steady_fun ::
  "experiment_base \<Rightarrow> force_controlled \<Rightarrow> real \<times> real \<Rightarrow> steady_view \<Rightarrow> (real \<times> real) \<times> steady_view" where
  "steady_fun base s X v =
     (let v = v\<lparr>sv_lam_r := fst X\<rparr>;
          v = v\<lparr>sv_lam_t := fst X\<rparr>;
          v = v\<lparr>sv_lam_z := snd X\<rparr>;
          v = v\<lparr>sv_p := 0\<rparr>;
          S_r = S_r (mech s) (sv_lam_r v) (sv_lam_r v) (sv_lam_z v);
          v = v\<lparr>sv_F := compute_force_steady base s v\<rparr>
      in ((S_r, physical_F s - sv_F v), v))"

definition steady_response ::
  "experiment_base \<Rightarrow> (real \<times> real \<Rightarrow> (real \<times> real, real \<times> real, optimize_result) solver)
     \<Rightarrow> force_controlled \<Rightarrow> steady_view
     \<Rightarrow> exn + string list \<times> solution option \<times> steady_view" where
  "steady_response base scipy_root s v =
     (case run_solver (scipy_root (11 / 10, physical_lam_z s))
             (\<lambda>X v. Inr (steady_fun base s X v)) v of
        Inl e \<Rightarrow> Inl e
      | Inr (steady_sol, v) \<Rightarrow>
          if success steady_sol = True then
            (let v = snd (steady_fun base s (x steady_sol) v);
                 v = v\<lparr>sv_fluid_load_fraction := compute_fluid_load_fraction_steady base s v\<rparr>;
                 sol = new_solution base;
                 sol = sol\<lparr>sol_u := fst (x steady_sol) *\<^sub>R sol_r sol\<rparr>;
                 sol = sol\<lparr>sol_lam_z := snd (x steady_sol)\<rparr>;
                 sol = sol\<lparr>sol_p := Arr0 (sv_p v)\<rparr>;
                 sol = sol\<lparr>sol_F := sv_F v\<rparr>;
                 sol = sol\<lparr>sol_fluid_load_fraction := sv_fluid_load_fraction v\<rparr>
             in Inr ([], Some sol, v))
          else Inr ([''ERROR: solver for initial response did not converge''], None, v))"

text \<open>\<^verbatim>\<open>ForceControlled.set_initial_guess\<close>. The power \<^verbatim>\<open>sol.t[1]**(1/2)\<close> is the
  square root. An index out of range raises.\<close>

definition py_index :: "'a list \<Rightarrow> nat \<Rightarrow> exn + 'a" where
  "py_index xs i = (if i < length xs then Inr (xs ! i) else Inl IndexError)"

definition set_initial_guess ::
  "experiment_base \<Rightarrow> (real \<Rightarrow> real \<Rightarrow> (real, real, root_results) solver) \<Rightarrow> force_controlled
     \<Rightarrow> solution \<Rightarrow> exn + string list \<times> vec \<times> force_controlled" where
  "set_initial_guess base scipy_root_scalar s sol =
     (case initial_response base scipy_root_scalar s of
        Inl e \<Rightarrow> Inl e
      | Inr (out, _, s) \<Rightarrow>
          (case py_index (p s) 0 of
             Inl e \<Rightarrow> Inl e
           | Inr p0 \<Rightarrow>
               (case py_index (sol_t sol) 1 of
                  Inl e \<Rightarrow> Inl e
                | Inr t1 \<Rightarrow>
                    (let s = s\<lparr>p := p0 *\<^sub>R map (\<lambda>a. 1 - exp (- (1 - a) / sqrt t1)) (r s)\<rparr>;
                         X = u s @ p s @ [lam_z s]
                     in Inr (out, X, s)))))"

section \<open>Osmotic pressure and hydration\<close>

text \<open>\<^verbatim>\<open>len\<close> of an array; a scalar has none.\<close>

fun py_len :: "ndarray \<Rightarrow> exn + nat" where
  "py_len (Arr0 c) = Inl TypeError"
| "py_len (Arr1 v) = Inr (length v)"
| "py_len (Arr2 M) = Inr (length M)"

text \<open>\<^verbatim>\<open>NoOsmosis.eval_osmotic_pressure\<close> and
  \<^verbatim>\<open>NoOsmosis.eval_osmotic_pressure_derivative\<close>.\<close>

definition eval_osmotic_pressure :: "ndarray \<Rightarrow> exn + ndarray" where
  "eval_osmotic_pressure Jv = (case py_len Jv of Inl e \<Rightarrow> Inl e | Inr n \<Rightarrow> Inr (Arr1 (np_zeros n)))"

definition eval_osmotic_pressure_derivative :: "ndarray \<Rightarrow> exn + ndarray" where
  "eval_osmotic_pressure_derivative Jv =
     (case py_len Jv of Inl e \<Rightarrow> Inl e | Inr n \<Rightarrow> Inr (Arr1 (np_zeros n)))"

text \<open>A float times an array and a float minus an array, by broadcasting.\<close>

fun scalar_times :: "real \<Rightarrow> ndarray \<Rightarrow> ndarray" where
  "scalar_times c (Arr0 a) = Arr0 (c * a)"
| "scalar_times c (Arr1 v) = Arr1 (map (\<lambda>a. c * a) v)"
| "scalar_times c (Arr2 M) = Arr2 (map (map (\<lambda>a. c * a)) M)"

fun scalar_minus :: "real \<Rightarrow> ndarray \<Rightarrow> ndarray" where
  "scalar_minus c (Arr0 a) = Arr0 (c - a)"
| "scalar_minus c (Arr1 v) = Arr1 (map (\<lambda>a. c - a) v)"
| "scalar_minus c (Arr2 M) = Arr2 (map (map (\<lambda>a. c - a)) M)"

text \<open>
  \<^verbatim>\<open>Hydration.steady_response\<close>: the helper \<^verbatim>\<open>fun\<close> and the method. The osmotic model
  is the method \<^verbatim>\<open>eval_osmotic_pressure\<close> of \<^verbatim>\<open>model.osmosis\<close>; \<open>fmt\<close> renders a
  float under a format specification. The method returns what it printed and either the
  triple or the exception it raised.
\<close>

definition hydration_fun ::
  "(ndarray \<Rightarrow> exn + ndarray) \<Rightarrow> mechanics \<Rightarrow> real \<times> real \<Rightarrow> exn + ndarray \<times> ndarray" where
  "hydration_fun osmosis m X =
     (let lam_r = fst X;
          lam_z = snd X;
          J = lam_r ^ 2 * lam_z
      in case osmosis (Arr0 J) of
           Inl e \<Rightarrow> Inl e
         | Inr Pi \<Rightarrow>
             Inr (scalar_minus (S_r m lam_r lam_r lam_z) (scalar_times (lam_r * lam_z) Pi),
                  scalar_minus (S_z m lam_r lam_r lam_z) (scalar_times (lam_r ^ 2) Pi)))"

definition hydration_steady_response ::
  "(string \<Rightarrow> real \<Rightarrow> string)
     \<Rightarrow> (real \<times> real \<Rightarrow> (real \<times> real, ndarray \<times> ndarray, optimize_result) solver)
     \<Rightarrow> (ndarray \<Rightarrow> exn + ndarray) \<Rightarrow> mechanics
     \<Rightarrow> string list \<times> (exn + real \<times> real \<times> real)" where
  "hydration_steady_response fmt scipy_root osmosis m =
     (let out = [''----------------------------------------'', ''Hydration step''];
          lam_r = 11 / 10;
          lam_z = 11 / 10
      in case run_solver (scipy_root (lam_r, lam_z))
                (\<lambda>X s. case hydration_fun osmosis m X of Inl e \<Rightarrow> Inl e | Inr y \<Rightarrow> Inr (y, s)) () of
           Inl e \<Rightarrow> (out, Inl e)
         | Inr (sol, _) \<Rightarrow>
             if success sol then
               (let out = out @ [''Solver converged''];
                    lam_r = fst (x sol);
                    lam_z = snd (x sol);
                    J = lam_r ^ 2 * lam_z;
                    phi_0 = 1 - 1 / J;
                    out = out @ [''Volumetric expansion due to hydration: '' @ fmt ''.2f'' J];
                    out = out @ [''Fluid fraction in hydrated state: '' @ fmt ''.2f'' phi_0];
                    out = out @ [''Radial stretch: '' @ fmt ''.2f'' lam_r];
                    out = out @ [''Axial stretch: '' @ fmt '' .2f'' lam_z]
                in (out, Inr (lam_r, lam_z, phi_0)))
             else (out, Inl (Exception ''ERROR: Solver did not converge'')))"

section \<open>The values the builders store\<close>

text \<open>
  Names for the values \<open>build_residual\<close> and \<open>build_jacobian\<close> store, each as a
  function of the state the method starts from. The lemmas \<open>build_residual_eq\<close> and
  \<open>build_jacobian_eq\<close> below show that the methods store exactly these.
\<close>

definition S_r_val :: "force_controlled \<Rightarrow> vec" where
  "S_r_val s = lambdified (S_r (mech s)) (lam_r s) (lam_t s) (lam_z s)"

definition S_t_val :: "force_controlled \<Rightarrow> vec" where
  "S_t_val s = lambdified (S_t (mech s)) (lam_r s) (lam_t s) (lam_z s)"

definition S_z_val :: "force_controlled \<Rightarrow> vec" where
  "S_z_val s = lambdified (S_z (mech s)) (lam_r s) (lam_t s) (lam_z s)"

definition k_val :: "force_controlled \<Rightarrow> vec" where
  "k_val s = eval_permeability (perm s) (J s)"

definition k_J_val :: "force_controlled \<Rightarrow> vec" where
  "k_J_val s = eval_permeability_derivative (perm s) (J s)"

definition div_S_val :: "force_controlled \<Rightarrow> vec" where
  "div_S_val s = matvec (interior (D s)) (S_r_val s)
                   + (interior (S_r_val s) - interior (S_t_val s)) / interior (r s)"

definition dLdt_val :: "force_controlled \<Rightarrow> vec" where
  "dLdt_val s = (1 / dt s) *\<^sub>R
                  (lam_z s *\<^sub>R np_power (lam_t s) 2
                   - lam_z_old s *\<^sub>R np_power (lam_t_old s) 2)"

definition F_u_bulk :: "force_controlled \<Rightarrow> vec" where
  "F_u_bulk s = interior (r s) /\<^sub>R 2 * interior (dLdt_val s)
                  - interior (k_val s) / interior (lam_r s) * div_S_val s"

definition F_u_val :: "force_controlled \<Rightarrow> vec" where
  "F_u_val s = set_last (last (S_r_val s)) ((set_interior (F_u_bulk s) (F_u s))[0 := u s ! 0])"

definition F_p_bulk :: "force_controlled \<Rightarrow> vec" where
  "F_p_bulk s = matvec (butlast (D s)) (p s)
                  - butlast (r s) * np_power (butlast (lam_r s)) 2 /\<^sub>R 2
                    / butlast (k_val s) / butlast (J s) * butlast (dLdt_val s)"

definition F_p_val :: "force_controlled \<Rightarrow> vec" where
  "F_p_val s = set_last (last (p s)) (set_butlast (F_p_bulk s) (F_p s))"

definition F_l_val :: "force_controlled \<Rightarrow> real" where
  "F_l_val s = 2 * pi * np_sum (w s * (S_z_val s - lam_r s * lam_t s * p s) * r s)
                 - physical_F s"

definition FUN_val :: "force_controlled \<Rightarrow> vec" where
  "FUN_val s = (np_put (ind_p s) (F_p_val s) (np_put (ind_u s) (F_u_val s) (FUN s)))
                 [ind_l s := F_l_val s]"

definition S_r_r_val :: "force_controlled \<Rightarrow> vec" where
  "S_r_r_val s = lambdified (S_r_r (mech s)) (lam_r s) (lam_t s) (lam_z s)"

definition S_r_t_val :: "force_controlled \<Rightarrow> vec" where
  "S_r_t_val s = lambdified (S_r_t (mech s)) (lam_r s) (lam_t s) (lam_z s)"

definition S_t_r_val :: "force_controlled \<Rightarrow> vec" where
  "S_t_r_val s = lambdified (S_t_r (mech s)) (lam_r s) (lam_t s) (lam_z s)"

definition S_t_t_val :: "force_controlled \<Rightarrow> vec" where
  "S_t_t_val s = lambdified (S_t_t (mech s)) (lam_r s) (lam_t s) (lam_z s)"

definition S_z_z_val :: "force_controlled \<Rightarrow> vec" where
  "S_z_z_val s = lambdified (S_z_z (mech s)) (lam_r s) (lam_t s) (lam_z s)"

definition J_uu_bulk :: "force_controlled \<Rightarrow> mat" where
  "J_uu_bulk s =
     matmul (matmul (interior (np_diag (lam_z s *\<^sub>R r s /\<^sub>R dt s))) (np_diag (lam_t s)))
       (lam_t_u s)
     - matmul (np_diag (div_S s))
         (matmul (interior (np_diag (k_J_val s / lam_r s))) (J_u s)
          - matmul (np_diag (interior (k_val s) / np_power (interior (lam_r s)) 2))
              (interior (lam_r_u s)))
     - matmul (np_diag (interior (k_val s) / interior (lam_r s)))
         (matmul (interior (D s))
            (matmul (np_diag (S_r_r_val s)) (lam_r_u s)
             + matmul (np_diag (S_r_t_val s)) (lam_t_u s))
          + matmul (np_diag (inverse (interior (r s))))
              (matmul (interior (np_diag (S_r_r_val s))) (lam_r_u s)
               + matmul (interior (np_diag (S_r_t_val s))) (lam_t_u s)
               - matmul (interior (np_diag (S_t_r_val s))) (lam_r_u s)
               - matmul (interior (np_diag (S_t_t_val s))) (lam_t_u s)))"

definition J_uu_last :: "force_controlled \<Rightarrow> vec" where
  "J_uu_last s = vecmat (last (np_diag (S_r_r_val s))) (lam_r_u s)
                   + vecmat (last (np_diag (S_r_t_val s))) (lam_t_u s)"

definition J_uu_val :: "force_controlled \<Rightarrow> mat" where
  "J_uu_val s = set_last (J_uu_last s) (set_interior (J_uu_bulk s) (J_uu s))"

definition J_ul_bulk :: "force_controlled \<Rightarrow> vec" where
  "J_ul_bulk s =
     interior (r s) /\<^sub>R 2 /\<^sub>R dt s * np_power (interior (lam_t s)) 2
     - interior (k_J_val s) * interior (J_l s) / interior (lam_r s) * div_S s
     - interior (k_val s) / interior (lam_r s)
       * (matvec (interior (D s)) (np_zeros (length (lam_r s)))
          + interior (np_zeros (length (lam_r s)) - np_zeros (length (lam_r s)))
            / interior (r s))"

definition J_ul_val :: "force_controlled \<Rightarrow> mat" where
  "J_ul_val s =
     set_last ((last (J_ul s))[0 := last (np_zeros (length (lam_r s)))])
       (set_interior (set_col0 (J_ul_bulk s) (interior (J_ul s))) (J_ul s))"

definition J_pu_bulk :: "force_controlled \<Rightarrow> mat" where
  "J_pu_bulk s =
     - (matmul (butlast (np_diag (r s * lam_r s * dLdt s / k_val s / J s))) (lam_r_u s)
        - matmul (butlast (np_diag
            (r s * np_power (lam_r s) 2 * k_J_val s * dLdt s /\<^sub>R 2
             / np_power (k_val s) 2 / J s))) (J_u s)
        - matmul (butlast (np_diag
            (r s * np_power (lam_r s) 2 * dLdt s /\<^sub>R 2
             / k_val s / np_power (J s) 2))) (J_u s)
        + matmul (butlast (np_diag
            (lam_z s *\<^sub>R (r s * np_power (lam_r s) 2 * lam_t s)
             / k_val s / J s /\<^sub>R dt s))) (lam_t_u s))"

definition J_pl_bulk :: "force_controlled \<Rightarrow> vec" where
  "J_pl_bulk s =
     - butlast
         (- r s * np_power (lam_r s) 2 * k_J_val s * J_l s /\<^sub>R 2
            / np_power (k_val s) 2 / J s * dLdt s
          - r s * np_power (lam_r s) 2 * J_l s /\<^sub>R 2
            / k_val s / np_power (J s) 2 * dLdt s
          + r s * np_power (lam_r s) 2 /\<^sub>R 2
            / k_val s / J s /\<^sub>R dt s * np_power (lam_t s) 2)"

definition J_pl_val :: "force_controlled \<Rightarrow> mat" where
  "J_pl_val s = set_butlast (set_col0 (J_pl_bulk s) (butlast (J_pl s))) (J_pl s)"

definition J_lu_val :: "force_controlled \<Rightarrow> vec" where
  "J_lu_val s = (- 2 * pi) *\<^sub>R vecmat (w s)
                  (matmul (np_diag (lam_t s * p s * r s)) (lam_r_u s)
                   + matmul (np_diag (lam_r s * p s * r s)) (lam_t_u s))"

definition J_lp_val :: "force_controlled \<Rightarrow> vec" where
  "J_lp_val s = (- 2 * pi) *\<^sub>R w s * lam_r s * lam_t s * r s"

definition J_ll_val :: "force_controlled \<Rightarrow> real" where
  "J_ll_val s = 2 * pi * np_sum (w s * S_z_z_val s * r s)"

definition JAC_val :: "force_controlled \<Rightarrow> mat" where
  "JAC_val s = np_block
     [[Arr2 (J_uu_val s), Arr2 (J_up s), Arr2 (J_ul_val s)],
      [Arr2 (set_butlast (J_pu_bulk s) (J_pu s)), Arr2 (J_pp s), Arr2 (J_pl_val s)],
      [Arr1 (J_lu_val s), Arr1 (J_lp_val s), Arr0 (J_ll_val s)]]"

section \<open>Sequences of calls\<close>

text \<open>The two builders as the calls of a driver, and a sequence of such calls.\<close>

datatype call = Build_residual | Build_jacobian

fun run_call :: "call \<Rightarrow> force_controlled \<Rightarrow> force_controlled" where
  "run_call Build_residual s = build_residual s"
| "run_call Build_jacobian s = build_jacobian s"

definition run_calls :: "call list \<Rightarrow> force_controlled \<Rightarrow> force_controlled" where
  "run_calls cs s = fold run_call cs s"

text \<open>The shapes of the two arrays \<open>build_residual\<close> caches for \<open>build_jacobian\<close>.\<close>

definition cached_ok :: "force_controlled \<Rightarrow> bool" where
  "cached_ok s \<longleftrightarrow> length (div_S s) = N s - 2 \<and> length (dLdt s) = N s"

section \<open>The tuple of stress derivatives as arrays\<close>

text \<open>
  The nine values \<open>eval_stress_derivatives\<close> returns, each with the number of
  dimensions NumPy gives it, and what can be asked of such an array: its shape, whether
  all its entries are zero, whether it is a square matrix of a given size that is zero
  off its diagonal.
\<close>

definition derivative_arrays ::
  "mat \<times> mat \<times> vec \<times> mat \<times> mat \<times> vec \<times> vec \<times> vec \<times> vec \<Rightarrow> ndarray list" where
  "derivative_arrays t =
     (case t of (a1, a2, a3, a4, a5, a6, a7, a8, a9) \<Rightarrow>
        [Arr2 a1, Arr2 a2, Arr1 a3, Arr2 a4, Arr2 a5, Arr1 a6, Arr1 a7, Arr1 a8, Arr1 a9])"

fun np_shape :: "ndarray \<Rightarrow> nat list" where
  "np_shape (Arr0 c) = []"
| "np_shape (Arr1 v) = [length v]"
| "np_shape (Arr2 M) = [length M, ncols M]"

fun all_zero :: "ndarray \<Rightarrow> bool" where
  "all_zero (Arr0 c) = (c = 0)"
| "all_zero (Arr1 v) = list_all (\<lambda>a. a = 0) v"
| "all_zero (Arr2 M) = list_all (list_all (\<lambda>a. a = 0)) M"

definition is_zero_matrix :: "nat \<Rightarrow> ndarray \<Rightarrow> bool" where
  "is_zero_matrix n a \<longleftrightarrow> np_shape a = [n, n] \<and> all_zero a"

definition is_zero_vector :: "nat \<Rightarrow> ndarray \<Rightarrow> bool" where
  "is_zero_vector n a \<longleftrightarrow> np_shape a = [n] \<and> all_zero a"

fun is_diagonal_matrix :: "nat \<Rightarrow> ndarray \<Rightarrow> bool" where
  "is_diagonal_matrix n (Arr2 M) \<longleftrightarrow>
     length M = n \<and> list_all (\<lambda>row. length row = n) M \<and>
     list_all (\<lambda>i. list_all (\<lambda>j. i = j \<or> M ! i ! j = 0) [0..<n]) [0..<n]"
| "is_diagonal_matrix n a \<longleftrightarrow> False"

section \<open>Example objects\<close>

text \<open>
  A grid of three nodes on the unit interval with second-order differences and trapezoid
  weights, the stresses of the strain energy
  \<open>(a\<^sup>2 + b\<^sup>2 + c\<^sup>2) / 2 - ln (a * b * c) + (a * b - 1)\<^sup>2 / 2\<close> (a neo-Hookean matrix with
  an in-plane coupling), unit permeability, and a sample stretched uniformly by \<open>6/5\<close>
  in the plane.
\<close>

definition example_mechanics :: mechanics where
  "example_mechanics =
     \<lparr>S_r = (\<lambda>a b c. a - 1 / a + b * (a * b - 1)),
      S_t = (\<lambda>a b c. b - 1 / b + a * (a * b - 1)),
      S_z = (\<lambda>a b c. c - 1 / c),
      S_r_r = (\<lambda>a b c. 1 + 1 / a ^ 2 + b ^ 2), S_r_t = (\<lambda>a b c. 2 * a * b - 1),
      S_t_r = (\<lambda>a b c. 2 * a * b - 1), S_t_t = (\<lambda>a b c. 1 + 1 / b ^ 2 + a ^ 2),
      S_z_z = (\<lambda>a b c. 1 + 1 / c ^ 2)\<rparr>"

definition example_permeability :: permeability where
  "example_permeability = \<lparr>k_of = (\<lambda>a. 1), k_J_of = (\<lambda>a. 0)\<rparr>"

definition example :: force_controlled where
  "example =
     \<lparr>N = 3, r = [0, 1 / 2, 1], w = [1 / 4, 1 / 2, 1 / 4],
      D = [[- 3, 4, - 1], [- 1, 0, 1], [1, - 4, 3]], dt = 1 / 10,
      ind_u = [0..<3], ind_p = [3..<2 * 3], ind_l = 2 * 3,
      lam_r_u = [[- 3, 4, - 1], [- 1, 0, 1], [1, - 4, 3]],
      lam_t_u = [[- 3, 4, - 1], [0, 2, 0], [0, 0, 1]],
      J_u = [[- 36 / 5, 48 / 5, - 12 / 5], [- 6 / 5, 12 / 5, 6 / 5], [6 / 5, - 24 / 5, 24 / 5]],
      J_l = [36 / 25, 36 / 25, 36 / 25],
      mech = example_mechanics, perm = example_permeability,
      physical_F = - 1, physical_lam_z = 1, loading = ''force'',
      u = [0, 1 / 10, 1 / 5], p = [1, 1 / 2, 0], lam_z = 1,
      lam_r = [6 / 5, 6 / 5, 6 / 5], lam_t = [6 / 5, 6 / 5, 6 / 5],
      J = [36 / 25, 36 / 25, 36 / 25],
      lam_t_old = [1, 1, 1], lam_z_old = 1, F = 0, fluid_load_fraction = 0,
      div_S = [0], dLdt = [0, 0, 0],
      F_u = [0, 0, 0], F_p = [0, 0, 0], F_l = 0, FUN = [0, 0, 0, 0, 0, 0, 0],
      J_uu = [[1, 0, 0], [0, 0, 0], [0, 0, 0]],
      J_up = [[0, 0, 0], [0, 0, 0], [0, 0, 0]],
      J_ul = [[0], [0], [0]],
      J_pu = [[0, 0, 0], [0, 0, 0], [0, 0, 0]],
      J_pp = [[- 3, 4, - 1], [- 1, 0, 1], [0, 0, 1]],
      J_pl = [[0], [0], [0]],
      J_lu = Arr2 [[0, 0, 0]], J_lp = Arr2 [[0, 0, 0]], J_ll = 0,
      JAC = replicate 7 (replicate 7 0)\<rparr>"

definition example_solution :: solution where
  "example_solution =
     \<lparr>sol_r = [0, 1 / 2, 1], sol_t = [0, 1, 2], sol_u = [0, 0, 0], sol_p = Arr1 [0, 0, 0],
      sol_lam_z = 1, sol_F = 0, sol_fluid_load_fraction = 0\<rparr>"

definition example_view :: steady_view where
  "example_view =
     \<lparr>sv_lam_r = 1, sv_lam_t = 1, sv_lam_z = 1, sv_p = 0, sv_F = 0,
      sv_fluid_load_fraction = 0\<rparr>"

text \<open>Stand-ins for the base class: the axial force of a uniformly stretched sample of
  unit radius, and no fluid load.\<close>

definition example_base :: experiment_base where
  "example_base =
     \<lparr>compute_force = (\<lambda>s. pi * (S_z (mech s) (lam_r s ! 0) (lam_t s ! 0) (lam_z s)
                                    - lam_r s ! 0 * lam_t s ! 0 * p s ! 0)),
      compute_fluid_load_fraction = (\<lambda>s. 0),
      compute_force_steady = (\<lambda>s v. pi * (S_z (mech s) (sv_lam_r v) (sv_lam_t v) (sv_lam_z v)
                                    - sv_lam_r v * sv_lam_t v * sv_p v)),
      compute_fluid_load_fraction_steady = (\<lambda>s v. 0),
      new_solution = example_solution\<rparr>"

text \<open>Root finders that evaluate the function at their starting points and then return
  a fixed result.\<close>

definition stub_root_scalar :: "root_results \<Rightarrow> real \<Rightarrow> real \<Rightarrow> (real, real, root_results) solver" where
  "stub_root_scalar res x0 x1 = Query x0 (\<lambda>f0. Query x1 (\<lambda>f1. Return res))"

definition stub_root :: "optimize_result \<Rightarrow> real \<times> real \<Rightarrow> (real \<times> real, 'y, optimize_result) solver" where
  "stub_root res x0 = Query x0 (\<lambda>f0. Return res)"

text \<open>An osmotic model that returns a float for a float: \<open>Pi(J) = 1/J - 1\<close>.\<close>

fun example_osmosis :: "ndarray \<Rightarrow> exn + ndarray" where
  "example_osmosis (Arr0 c) = Inr (Arr0 (1 / c - 1))"
| "example_osmosis (Arr1 v) = Inr (Arr1 (map (\<lambda>c. 1 / c - 1) v))"
| "example_osmosis (Arr2 M) = Inr (Arr2 (map (map (\<lambda>c. 1 / c - 1)) M))"

section \<open>Arrays: lengths, entries, overwriting\<close>

subsection \<open>Lengths\<close>

lemma length_plus_list [simp]: "length (xs + ys) = min (length xs) (length ys)"
  by (simp add: plus_list_def)

lemma length_minus_list [simp]: "length (xs - ys) = min (length xs) (length ys)"
  by (simp add: minus_list_def)

lemma length_times_list [simp]: "length (xs * ys) = min (length xs) (length ys)"
  by (simp add: times_list_def)

lemma length_divide_list [simp]: "length (xs / ys) = min (length xs) (length ys)"
  by (simp add: divide_list_def)

lemma length_uminus_list [simp]: "length (- xs) = length xs"
  by (simp add: uminus_list_def)

lemma length_inverse_list [simp]: "length (inverse xs) = length xs"
  by (simp add: inverse_list_def)

lemma length_scaleR_list [simp]: "length (c *\<^sub>R xs) = length xs"
  by (simp add: scaleR_list_def)

lemma length_np_power [simp]: "length (np_power v n) = length v"
  by (simp add: np_power_def)

lemma length_np_zeros [simp]: "length (np_zeros n) = n"
  by (simp add: np_zeros_def)

lemma length_np_diag [simp]: "length (np_diag v) = length v"
  by (simp add: np_diag_def)

lemma length_matvec [simp]: "length (matvec M v) = length M"
  by (simp add: matvec_def)

lemma length_vecmat [simp]: "length (vecmat v M) = ncols M"
  by (simp add: vecmat_def)

lemma length_matmul [simp]: "length (matmul A B) = length A"
  by (simp add: matmul_def)

lemma length_interior [simp]: "length (interior xs) = length xs - 2"
  by (simp add: interior_def)

lemma length_lambdified [simp]:
  "length (lambdified f a b c) = min (length a) (length b)"
  by (simp add: lambdified_def)

lemma length_eval_permeability [simp]: "length (eval_permeability pm v) = length v"
  by (simp add: eval_permeability_def)

lemma length_eval_permeability_derivative [simp]:
  "length (eval_permeability_derivative pm v) = length v"
  by (simp add: eval_permeability_derivative_def)

lemma length_set_interior:
  "length (set_interior v xs) = (if 2 \<le> length xs then length v + 2 else length xs)"
  by (cases xs) (auto simp: set_interior_def Suc_le_eq)

lemma length_set_butlast:
  "length (set_butlast v xs) = (if xs = [] then 0 else length v + 1)"
  by (simp add: set_butlast_def)

lemma length_set_last [simp]: "length (set_last c xs) = length xs"
  by (simp add: set_last_def)

lemma length_set_col0 [simp]: "length (set_col0 v M) = min (length M) (length v)"
  by (simp add: set_col0_def)

lemma length_np_put [simp]: "length (np_put idx v xs) = length xs"
proof -
  have "length (fold (\<lambda>(i, c) acc. acc[i := c]) ws xs) = length xs" for ws :: "(nat \<times> real) list"
    by (induction ws arbitrary: xs) (auto simp: split_beta)
  then show ?thesis by (simp add: np_put_def)
qed

subsection \<open>Entries\<close>

lemma nth_plus_list [simp]:
  "i < length xs \<Longrightarrow> i < length ys \<Longrightarrow> (xs + ys) ! i = xs ! i + ys ! i"
  by (simp add: plus_list_def)

lemma nth_minus_list [simp]:
  "i < length xs \<Longrightarrow> i < length ys \<Longrightarrow> (xs - ys) ! i = xs ! i - ys ! i"
  by (simp add: minus_list_def)

lemma nth_times_list [simp]:
  "i < length xs \<Longrightarrow> i < length ys \<Longrightarrow> (xs * ys) ! i = xs ! i * ys ! i"
  by (simp add: times_list_def)

lemma nth_divide_list [simp]:
  "i < length xs \<Longrightarrow> i < length ys \<Longrightarrow> (xs / ys) ! i = xs ! i / ys ! i"
  by (simp add: divide_list_def)

lemma nth_uminus_list [simp]: "i < length xs \<Longrightarrow> (- xs) ! i = - (xs ! i)"
  by (simp add: uminus_list_def)

lemma nth_inverse_list [simp]: "i < length xs \<Longrightarrow> (inverse xs) ! i = inverse (xs ! i)"
  by (simp add: inverse_list_def)

lemma nth_scaleR_list [simp]: "i < length xs \<Longrightarrow> (c *\<^sub>R xs) ! i = c *\<^sub>R (xs ! i)"
  by (simp add: scaleR_list_def)

lemma nth_np_power [simp]: "i < length v \<Longrightarrow> np_power v n ! i = (v ! i) ^ n"
  by (simp add: np_power_def)

lemma nth_np_zeros [simp]: "i < n \<Longrightarrow> np_zeros n ! i = 0"
  by (simp add: np_zeros_def)

lemma nth_interior [simp]: "i < length xs - 2 \<Longrightarrow> interior xs ! i = xs ! Suc i"
  by (simp add: interior_def nth_butlast nth_tl)

lemma nth_lambdified [simp]:
  "i < length a \<Longrightarrow> i < length b \<Longrightarrow> lambdified f a b c ! i = f (a ! i) (b ! i) c"
  by (simp add: lambdified_def)

lemma nth_eval_permeability [simp]:
  "i < length v \<Longrightarrow> eval_permeability pm v ! i = k_of pm (v ! i)"
  by (simp add: eval_permeability_def)

lemma nth_eval_permeability_derivative [simp]:
  "i < length v \<Longrightarrow> eval_permeability_derivative pm v ! i = k_J_of pm (v ! i)"
  by (simp add: eval_permeability_derivative_def)

lemma nth_np_diag [simp]:
  "i < length v \<Longrightarrow> j < length v \<Longrightarrow> np_diag v ! i ! j = (if i = j then v ! i else 0)"
  by (simp add: np_diag_def)

lemma length_nth_np_diag [simp]: "i < length v \<Longrightarrow> length (np_diag v ! i) = length v"
  by (simp add: np_diag_def)

lemma np_dot_sum:
  "length a = n \<Longrightarrow> length b = n \<Longrightarrow> np_dot a b = (\<Sum>j<n. a ! j * b ! j)"
proof -
  assume "length a = n" "length b = n"
  then have "a * b = map (\<lambda>j. a ! j * b ! j) [0..<n]"
    by (intro nth_equalityI) simp_all
  then show ?thesis
    by (simp add: np_dot_def np_sum_def sum_list_sum_nth atLeast0LessThan)
qed

lemma nth_matvec [simp]: "i < length M \<Longrightarrow> matvec M v ! i = np_dot (M ! i) v"
  by (simp add: matvec_def)

lemma nth_set_interior:
  "2 \<le> length xs \<Longrightarrow> i < length v + 2 \<Longrightarrow>
   set_interior v xs ! i =
     (if i = 0 then xs ! 0 else if i = Suc (length v) then last xs else v ! (i - 1))"
  by (cases xs) (auto simp: set_interior_def nth_Cons' nth_append)

lemma nth_set_butlast:
  "xs \<noteq> [] \<Longrightarrow> i \<le> length v \<Longrightarrow>
   set_butlast v xs ! i = (if i = length v then last xs else v ! i)"
  by (auto simp: set_butlast_def nth_append)

lemma nth_set_last:
  "i < length xs \<Longrightarrow> set_last c xs ! i = (if i = length xs - 1 then c else xs ! i)"
  by (auto simp: set_last_def)

lemma last_set_last [simp]: "xs \<noteq> [] \<Longrightarrow> last (set_last c xs) = c"
  by (simp add: set_last_def last_conv_nth)

lemma last_set_interior [simp]: "last (set_interior v xs) = last xs"
  by (cases xs) (auto simp: set_interior_def)

subsection \<open>Overwriting\<close>

lemma set_interior_twice [simp]: "set_interior v (set_interior v' xs) = set_interior v xs"
  by (cases xs) (auto simp: set_interior_def)

lemma interior_set_interior:
  "interior (set_interior v xs) = (if 2 \<le> length xs then v else [])"
  by (cases xs; cases "tl xs") (auto simp: set_interior_def interior_def butlast_append)

lemma set_interior_short: "length xs < 2 \<Longrightarrow> set_interior v xs = xs"
  by (cases xs) (auto simp: set_interior_def)

lemma set_interior_update:
  "set_interior (f (interior (set_interior v xs))) (set_interior v xs) = set_interior (f v) xs"
  by (cases "2 \<le> length xs") (simp_all add: interior_set_interior set_interior_short)

lemma set_butlast_twice [simp]: "set_butlast v (set_butlast v' xs) = set_butlast v xs"
  by (simp add: set_butlast_def)

lemma set_last_twice [simp]: "set_last c (set_last c' xs) = set_last c xs"
  by (simp add: set_last_def)

lemma set_last_set_butlast:
  "set_last c (set_butlast v (set_last c' xs)) = set_last c (set_butlast v xs)"
  by (cases "xs = []") (simp_all add: set_last_def set_butlast_def)

lemma butlast_set_butlast:
  "butlast (set_butlast v xs) = (if xs = [] then [] else v)"
  by (simp add: set_butlast_def)

lemma last_set_butlast [simp]: "last (set_butlast v xs) = last xs"
  by (simp add: set_butlast_def)

lemma residual_F_u_twice:
  "set_last c ((set_interior v (set_last c' ((set_interior v' xs)[0 := b'])))[0 := b])
     = set_last c ((set_interior v xs)[0 := b])"
proof (cases xs)
  case Nil
  then show ?thesis by (simp add: set_last_def set_interior_def)
next
  case (Cons a ys)
  show ?thesis
  proof (cases "ys = []")
    case True
    with Cons show ?thesis by (simp add: set_last_def set_interior_def)
  next
    case False
    with Cons show ?thesis
      by (simp add: set_last_def set_interior_def list_update_append nth_append butlast_append)
  qed
qed

section \<open>What the builders store\<close>

lemma build_residual_eq:
  "build_residual s =
     s\<lparr>div_S := div_S_val s, dLdt := dLdt_val s, F_u := F_u_val s, F_p := F_p_val s,
       F_l := F_l_val s, FUN := FUN_val s\<rparr>"
  by (simp add: build_residual_def Let_def eval_stress_def S_r_val_def S_t_val_def
      S_z_val_def k_val_def div_S_val_def dLdt_val_def F_u_bulk_def F_u_val_def
      F_p_bulk_def F_p_val_def F_l_val_def FUN_val_def)

lemma set_interior_minus [simp]:
  "set_interior (interior (set_interior v xs) - B) xs = set_interior (v - B) xs"
  by (cases "2 \<le> length xs") (simp_all add: interior_set_interior set_interior_short)

lemma last_set_interior_col0 [simp]: "last (set_interior v xs) = last xs"
  by simp

lemma set_interior_minus2 [simp]:
  "set_interior (interior (set_interior v xs) - B - C) xs = set_interior (v - B - C) xs"
  by (cases "2 \<le> length xs") (simp_all add: interior_set_interior set_interior_short)

lemma build_jacobian_eq:
  "build_jacobian s =
     s\<lparr>J_uu := J_uu_val s, J_ul := J_ul_val s,
       J_pu := set_butlast (J_pu_bulk s) (J_pu s), J_pl := J_pl_val s,
       J_lu := Arr1 (J_lu_val s), J_lp := Arr1 (J_lp_val s), J_ll := J_ll_val s,
       JAC := JAC_val s\<rparr>"
  by (simp add: build_jacobian_def Let_def eval_stress_derivatives_def S_r_r_val_def
      S_r_t_val_def S_t_r_val_def S_t_t_val_def S_z_z_val_def k_val_def k_J_val_def
      J_uu_bulk_def J_uu_last_def J_uu_val_def J_ul_bulk_def J_ul_val_def J_pu_bulk_def
      J_pl_bulk_def J_pl_val_def J_lu_val_def J_lp_val_def J_ll_val_def JAC_val_def)

lemma fold_update_length:
  "length (fold (\<lambda>(i, c) acc. acc[i := c]) ws xs) = length xs"
  by (induction ws arbitrary: xs) (auto simp: split_beta)

lemma fold_update_nth:
  "i < length xs \<Longrightarrow>
   fold (\<lambda>(j, c) acc. acc[j := c]) ws xs ! i
     = (case map_of (rev ws) i of Some c \<Rightarrow> c | None \<Rightarrow> xs ! i)"
proof (induction ws arbitrary: xs)
  case Nil
  then show ?case by simp
next
  case (Cons a ws)
  obtain j c where a: "a = (j, c)" by (cases a)
  show ?case using Cons.prems
    by (simp add: a Cons.IH map_add_def nth_list_update split: option.splits)
qed

lemma fold_update_twice:
  "fold (\<lambda>(j, c) acc. acc[j := c]) ws (fold (\<lambda>(j, c) acc. acc[j := c]) ws xs)
     = fold (\<lambda>(j, c) acc. acc[j := c]) ws (xs :: 'a list)"
  by (rule nth_equalityI)
     (simp_all add: fold_update_length fold_update_nth split: option.splits)

lemma residual_FUN_as_fold:
  "(np_put ip fp (np_put iu fu xs))[il := fl]
     = fold (\<lambda>(j, c) acc. acc[j := c]) (zip iu fu @ zip ip fp @ [(il, fl)]) xs"
  by (simp add: np_put_def)

lemma residual_FUN_twice:
  "(np_put ip fp (np_put iu fu ((np_put ip fp (np_put iu fu xs))[il := fl])))[il := fl]
     = (np_put ip fp (np_put iu fu xs))[il := fl]"
  unfolding residual_FUN_as_fold by (rule fold_update_twice)

lemma build_residual_idem: "build_residual (build_residual s) = build_residual s"
proof -
  let ?t = "build_residual s"
  have t: "?t = s\<lparr>div_S := div_S_val s, dLdt := dLdt_val s, F_u := F_u_val s,
      F_p := F_p_val s, F_l := F_l_val s, FUN := FUN_val s\<rparr>"
    by (rule build_residual_eq)
  have a: "S_r_val ?t = S_r_val s" "S_t_val ?t = S_t_val s" "S_z_val ?t = S_z_val s"
    "k_val ?t = k_val s" "dLdt_val ?t = dLdt_val s"
    by (simp_all add: t S_r_val_def S_t_val_def S_z_val_def k_val_def dLdt_val_def)
  have b: "div_S_val ?t = div_S_val s" "F_l_val ?t = F_l_val s"
    unfolding div_S_val_def F_l_val_def a by (simp_all add: t)
  have c: "F_u_bulk ?t = F_u_bulk s" "F_p_bulk ?t = F_p_bulk s"
    unfolding F_u_bulk_def F_p_bulk_def a b by (simp_all add: t)
  have d: "F_u_val ?t = F_u_val s"
    unfolding F_u_val_def a c by (simp add: t F_u_val_def residual_F_u_twice)
  have e: "F_p_val ?t = F_p_val s"
    unfolding F_p_val_def a c by (simp add: t F_p_val_def set_last_set_butlast)
  have f: "FUN_val ?t = FUN_val s"
    unfolding FUN_val_def b d e by (simp add: t FUN_val_def residual_FUN_twice)
  show ?thesis
    by (subst build_residual_eq) (simp add: b a d e f, simp add: t)
qed

lemma set_col0_twice [simp]: "set_col0 v (set_col0 v M) = set_col0 v M"
  by (rule nth_equalityI) (simp_all add: set_col0_def)

lemma jacobian_J_uu_twice:
  "set_last c (set_interior v (set_last c (set_interior v xs))) = set_last c (set_interior v xs)"
proof (cases xs)
  case Nil
  then show ?thesis by (simp add: set_last_def set_interior_def)
next
  case (Cons a ys)
  show ?thesis
  proof (cases "ys = []")
    case True
    with Cons show ?thesis by (simp add: set_last_def set_interior_def)
  next
    case False
    with Cons show ?thesis
      by (simp add: set_last_def set_interior_def list_update_append nth_append butlast_append)
  qed
qed

lemma jacobian_J_ul_twice:
  fixes X :: mat and c :: real and v :: vec
  defines "G \<equiv> \<lambda>Y. set_last ((last Y)[0 := c]) (set_interior (set_col0 v (interior Y)) Y)"
  shows "G (G X) = G X"
proof (cases X)
  case Nil
  then show ?thesis by (simp add: G_def set_last_def set_interior_def)
next
  case (Cons a ys)
  show ?thesis
  proof (cases "ys = []")
    case True
    with Cons show ?thesis by (simp add: G_def set_last_def set_interior_def interior_def)
  next
    case False
    with Cons show ?thesis
      by (simp add: G_def set_last_def set_interior_def interior_def list_update_append
          nth_append butlast_append)
  qed
qed

lemma jacobian_J_pl_twice:
  "set_butlast (set_col0 v (butlast (set_butlast (set_col0 v (butlast X)) X))) X
     = set_butlast (set_col0 v (butlast X)) X"
  by (cases "X = []") (simp_all add: set_butlast_def)

lemma build_jacobian_idem: "build_jacobian (build_jacobian s) = build_jacobian s"
proof -
  let ?t = "build_jacobian s"
  have t: "?t = s\<lparr>J_uu := J_uu_val s, J_ul := J_ul_val s,
       J_pu := set_butlast (J_pu_bulk s) (J_pu s), J_pl := J_pl_val s,
       J_lu := Arr1 (J_lu_val s), J_lp := Arr1 (J_lp_val s), J_ll := J_ll_val s,
       JAC := JAC_val s\<rparr>"
    by (rule build_jacobian_eq)
  have a: "S_r_r_val ?t = S_r_r_val s" "S_r_t_val ?t = S_r_t_val s"
    "S_t_r_val ?t = S_t_r_val s" "S_t_t_val ?t = S_t_t_val s" "S_z_z_val ?t = S_z_z_val s"
    "k_val ?t = k_val s" "k_J_val ?t = k_J_val s"
    by (simp_all add: t S_r_r_val_def S_r_t_val_def S_t_r_val_def S_t_t_val_def
        S_z_z_val_def k_val_def k_J_val_def)
  have b: "J_uu_bulk ?t = J_uu_bulk s" "J_uu_last ?t = J_uu_last s"
    "J_ul_bulk ?t = J_ul_bulk s" "J_pu_bulk ?t = J_pu_bulk s" "J_pl_bulk ?t = J_pl_bulk s"
    "J_lu_val ?t = J_lu_val s" "J_lp_val ?t = J_lp_val s" "J_ll_val ?t = J_ll_val s"
    unfolding J_uu_bulk_def J_uu_last_def J_ul_bulk_def J_pu_bulk_def J_pl_bulk_def
      J_lu_val_def J_lp_val_def J_ll_val_def a
    by (simp_all add: t)
  have c: "J_uu_val ?t = J_uu_val s"
    unfolding J_uu_val_def b by (simp add: t J_uu_val_def jacobian_J_uu_twice)
  have d: "J_ul_val ?t = J_ul_val s"
    unfolding J_ul_val_def b by (simp add: t J_ul_val_def jacobian_J_ul_twice)
  have e: "J_pl_val ?t = J_pl_val s"
    unfolding J_pl_val_def b by (simp add: t J_pl_val_def jacobian_J_pl_twice)
  have f: "set_butlast (J_pu_bulk ?t) (J_pu ?t) = set_butlast (J_pu_bulk s) (J_pu s)"
    unfolding b by (simp add: t)
  have g: "JAC_val ?t = JAC_val s"
    unfolding JAC_val_def b c d e f by (simp add: t)
  show ?thesis
    by (subst build_jacobian_eq) (simp add: b c d e f g, simp add: t)
qed

lemma build_residual_after_jacobian:
  "build_residual (build_jacobian (build_residual s)) = build_jacobian (build_residual s)"
proof -
  let ?b = "build_residual s"
  let ?t = "build_jacobian ?b"
  have t: "?t = ?b\<lparr>J_uu := J_uu_val ?b, J_ul := J_ul_val ?b,
       J_pu := set_butlast (J_pu_bulk ?b) (J_pu ?b), J_pl := J_pl_val ?b,
       J_lu := Arr1 (J_lu_val ?b), J_lp := Arr1 (J_lp_val ?b), J_ll := J_ll_val ?b,
       JAC := JAC_val ?b\<rparr>"
    by (rule build_jacobian_eq)
  have bb: "build_residual ?b = ?b" by (rule build_residual_idem)
  have own: "div_S_val ?b = div_S ?b" "dLdt_val ?b = dLdt ?b" "F_u_val ?b = F_u ?b"
    "F_p_val ?b = F_p ?b" "F_l_val ?b = F_l ?b" "FUN_val ?b = FUN ?b"
    using arg_cong[OF bb, of div_S] arg_cong[OF bb, of dLdt] arg_cong[OF bb, of F_u]
      arg_cong[OF bb, of F_p] arg_cong[OF bb, of F_l] arg_cong[OF bb, of FUN]
    by (simp_all add: build_residual_eq[of ?b])
  have a: "S_r_val ?t = S_r_val ?b" "S_t_val ?t = S_t_val ?b" "S_z_val ?t = S_z_val ?b"
    "k_val ?t = k_val ?b" "dLdt_val ?t = dLdt_val ?b"
    by (simp_all add: t S_r_val_def S_t_val_def S_z_val_def k_val_def dLdt_val_def)
  have b: "div_S_val ?t = div_S_val ?b" "F_l_val ?t = F_l_val ?b"
    unfolding div_S_val_def F_l_val_def a by (simp_all add: t)
  have c: "F_u_bulk ?t = F_u_bulk ?b" "F_p_bulk ?t = F_p_bulk ?b"
    unfolding F_u_bulk_def F_p_bulk_def a b by (simp_all add: t)
  have d: "F_u_val ?t = F_u_val ?b" "F_p_val ?t = F_p_val ?b"
    unfolding F_u_val_def F_p_val_def a c by (simp_all add: t)
  have e: "FUN_val ?t = FUN_val ?b"
    unfolding FUN_val_def b d by (simp add: t)
  have fr: "div_S ?t = div_S ?b" "dLdt ?t = dLdt ?b" "F_u ?t = F_u ?b" "F_p ?t = F_p ?b"
    "F_l ?t = F_l ?b" "FUN ?t = FUN ?b"
    by (simp_all add: t)
  have "build_residual ?t = ?t\<lparr>div_S := div_S ?t, dLdt := dLdt ?t, F_u := F_u ?t,
      F_p := F_p ?t, F_l := F_l ?t, FUN := FUN ?t\<rparr>"
    by (subst build_residual_eq) (simp only: a b c d e own fr)
  then show ?thesis by simp
qed

section \<open>Root finders and the state of the caller\<close>

lemma run_solver_invariant:
  assumes step: "\<And>a s y s'. P s \<Longrightarrow> f a s = Inr (y, s') \<Longrightarrow> P s'"
    and "P s" and "run_solver sv f s = Inr (res, s')"
  shows "P s'"
  using assms(2,3)
proof (induction sv arbitrary: s)
  case (Return res0)
  then show ?case by simp
next
  case (Raise e)
  then show ?case by simp
next
  case (Query a k)
  from Query.prems(2) obtain y s1 where f: "f a s = Inr (y, s1)"
    and run: "run_solver (k y) f s1 = Inr (res, s')"
    by (auto split: sum.splits)
  from step[OF Query.prems(1) f] have "P s1" .
  with Query.IH[of "k y" s1] run show ?case by blast
qed

lemma initial_fun_r: "r (snd (initial_fun base lz s)) = r s"
  by (simp add: initial_fun_def Let_def split_beta)

lemma run_initial_fun_r:
  assumes "run_solver sv (\<lambda>lz s. Inr (initial_fun base lz s)) s = Inr (res, s')"
  shows "r s' = r s"
proof (rule run_solver_invariant[where P = "\<lambda>t. r t = r s", OF _ _ assms])
  fix a t y t'
  assume "r t = r s"
    and "Inr (initial_fun base a t) = (Inr (y, t') :: exn + real \<times> force_controlled)"
  then show "r t' = r s" using initial_fun_r[of base a t] by (metis Inr_inject snd_conv)
qed simp

lemma hydration_fun_no_osmosis:
  "hydration_fun eval_osmotic_pressure m X = Inl TypeError"
  by (simp add: hydration_fun_def eval_osmotic_pressure_def)

lemma scaleR_list_one: "(1::real) *\<^sub>R (xs :: real list) = xs"
  by (induction xs) (simp_all add: scaleR_list_def)

lemma scaleR_list_zero: "(0::real) *\<^sub>R (xs :: real list) = np_zeros (length xs)"
  by (induction xs) (simp_all add: scaleR_list_def np_zeros_def)

section \<open>The grid and the example state\<close>

lemma grid_two_nodes: "grid_ok s \<Longrightarrow> 2 \<le> length (r s)"
  unfolding grid_ok_def
  by (cases "r s"; cases "tl (r s)") (auto simp: last_conv_nth)

lemma shapes_ok_example: "shapes_ok example"
  by (simp add: shapes_ok_def example_def is_matrix_def)

lemma grid_ok_example: "grid_ok example"
  by (simp add: grid_ok_def example_def)

section \<open>The claims\<close>

subsection \<open>C2: boundary rows of the residual\<close>

text \<open>
  Claim C2. On a grid whose first node is the centre and whose last node is the surface,
  with arrays of the allocated shapes, \<open>build_residual\<close> leaves the first entry of
  the displacement residual equal to the first displacement and the last entry of the
  pressure residual equal to the last pressure, whatever the fields are elsewhere.
\<close>

theorem residual_boundary_conditions:
  assumes "shapes_ok s" and "grid_ok s"
  shows "F_u (build_residual s) ! 0 = u s ! 0 \<and> last (F_p (build_residual s)) = last (p s)"
proof -
  have n: "2 \<le> length (r s)" using assms(2) by (rule grid_two_nodes)
  have lu: "length (F_u s) = length (r s)" and lp: "length (F_p s) = length (r s)"
    using assms(1) by (simp_all add: shapes_ok_def)
  have "F_u (build_residual s) ! 0 = u s ! 0"
    using n lu
    by (simp add: build_residual_eq F_u_val_def nth_set_last length_set_interior)
  moreover have "F_p s \<noteq> []" using n lp by auto
  then have "last (F_p (build_residual s)) = last (p s)"
    by (simp add: build_residual_eq F_p_val_def set_butlast_def)
  ultimately show ?thesis by simp
qed

theorem residual_boundary_conditions_witness:
  "shapes_ok example \<and> grid_ok example \<and>
   F_u (build_residual example) ! 0 = u example ! 0 \<and>
   last (F_p (build_residual example)) = last (p example)"
  using residual_boundary_conditions[OF shapes_ok_example grid_ok_example]
    shapes_ok_example grid_ok_example by simp

subsection \<open>C4: the hydration solve\<close>

text \<open>
  Claim C4. The function \<open>Hydration.steady_response\<close> hands to the root finder is the
  pair \<open>S_r - lam_r * lam_z * Pi(J)\<close>, \<open>S_z - lam_r\<^sup>2 * Pi(J)\<close> with
  \<open>J = lam_r\<^sup>2 * lam_z\<close>; the search starts at \<open>(1.1, 1.1)\<close>; when the root finder
  reports success at \<open>(lam_r, lam_z)\<close> the method returns
  \<open>(lam_r, lam_z, 1 - 1 / (lam_r\<^sup>2 * lam_z))\<close>; and whatever happens, it either raises
  or returns a triple of that form.
\<close>

theorem hydration_steady_response_result:
  "(osmosis (Arr0 (a ^ 2 * b)) = Inr (Arr0 P) \<longrightarrow>
      hydration_fun osmosis m (a, b)
        = Inr (Arr0 (S_r m a a b - a * b * P), Arr0 (S_z m a a b - a ^ 2 * P))) \<and>
   (run_solver (scipy_root (11 / 10, 11 / 10))
        (\<lambda>X s. case hydration_fun osmosis m X of Inl e \<Rightarrow> Inl e | Inr y \<Rightarrow> Inr (y, s)) ()
      = Inr (sol, ()) \<and> success sol \<longrightarrow>
      snd (hydration_steady_response fmt scipy_root osmosis m)
        = Inr (fst (x sol), snd (x sol), 1 - 1 / ((fst (x sol)) ^ 2 * snd (x sol)))) \<and>
   ((\<exists>e. snd (hydration_steady_response fmt scipy_root osmosis m) = Inl e) \<or>
    (\<exists>lr lz. snd (hydration_steady_response fmt scipy_root osmosis m)
        = Inr (lr, lz, 1 - 1 / (lr ^ 2 * lz))))"
proof (intro conjI impI)
  assume "osmosis (Arr0 (a ^ 2 * b)) = Inr (Arr0 P)"
  then show "hydration_fun osmosis m (a, b)
        = Inr (Arr0 (S_r m a a b - a * b * P), Arr0 (S_z m a a b - a ^ 2 * P))"
    by (simp add: hydration_fun_def)
next
  assume "run_solver (scipy_root (11 / 10, 11 / 10))
        (\<lambda>X s. case hydration_fun osmosis m X of Inl e \<Rightarrow> Inl e | Inr y \<Rightarrow> Inr (y, s)) ()
      = Inr (sol, ()) \<and> success sol"
  then show "snd (hydration_steady_response fmt scipy_root osmosis m)
        = Inr (fst (x sol), snd (x sol), 1 - 1 / ((fst (x sol)) ^ 2 * snd (x sol)))"
    by (simp add: hydration_steady_response_def Let_def)
next
  show "(\<exists>e. snd (hydration_steady_response fmt scipy_root osmosis m) = Inl e) \<or>
    (\<exists>lr lz. snd (hydration_steady_response fmt scipy_root osmosis m)
        = Inr (lr, lz, 1 - 1 / (lr ^ 2 * lz)))"
    by (auto simp add: hydration_steady_response_def Let_def split: sum.splits prod.splits)
qed

theorem hydration_steady_response_result_witness:
  "hydration_fun example_osmosis example_mechanics (1, 1) = Inr (Arr0 0, Arr0 0) \<and>
   snd (hydration_steady_response (\<lambda>spec v. []) (stub_root \<lparr>success = True, x = (1, 1)\<rparr>)
          example_osmosis example_mechanics) = Inr (1, 1, 0)"
  using hydration_steady_response_result[of example_osmosis 1 1 0 example_mechanics
      "stub_root \<lparr>success = True, x = (1, 1)\<rparr>" "\<lparr>success = True, x = (1, 1)\<rparr>" "\<lambda>spec v. []"]
  by (simp add: stub_root_def hydration_fun_def example_mechanics_def Let_def)

subsection \<open>C5: hydration without osmosis\<close>

text \<open>
  Claim C5. The claim is that with \<open>NoOsmosis\<close> the hydration solve converges to
  \<open>lam_r = lam_z = 1\<close>, \<open>phi_0 = 0\<close>. The code does not get that far:
  \<open>NoOsmosis.eval_osmotic_pressure\<close> takes the length of its argument, the helper of
  \<open>Hydration.steady_response\<close> passes it a float, and the first evaluation of the helper
  raises \<open>TypeError\<close>, at every point; so does the method, for every root finder that
  evaluates the function it is given before it returns.
\<close>

theorem hydration_no_osmosis_raises:
  "hydration_fun eval_osmotic_pressure m X = Inl TypeError \<and>
   snd (hydration_steady_response fmt (\<lambda>seed. Query seed k) eval_osmotic_pressure m)
     = Inl TypeError"
  by (simp add: hydration_steady_response_def hydration_fun_no_osmosis)

subsection \<open>C6: a failed search\<close>

text \<open>
  Claim C6. When the root finder returns without convergence, \<open>initial_response\<close> and
  \<open>ForceControlled.steady_response\<close> print a message and return \<open>None\<close>, while
  \<open>Hydration.steady_response\<close> raises an exception.
\<close>

theorem nonconvergence_asymmetry:
  "(run_solver (scipy_root_scalar (physical_lam_z s) (physical_lam_z s * (101 / 100)))
        (\<lambda>lz s. Inr (initial_fun base lz s)) s = Inr (res, s') \<and> \<not> converged res \<longrightarrow>
      initial_response base scipy_root_scalar s
        = Inr ([''ERROR: solver for initial response did not converge''], None, s')) \<and>
   (run_solver (scipy_root (11 / 10, physical_lam_z s))
        (\<lambda>X v. Inr (steady_fun base s X v)) v = Inr (res2, v') \<and> \<not> success res2 \<longrightarrow>
      steady_response base scipy_root s v
        = Inr ([''ERROR: solver for initial response did not converge''], None, v')) \<and>
   (run_solver (scipy_root_h (11 / 10, 11 / 10))
        (\<lambda>X s. case hydration_fun osmosis m X of Inl e \<Rightarrow> Inl e | Inr y \<Rightarrow> Inr (y, s)) ()
      = Inr (res3, ()) \<and> \<not> success res3 \<longrightarrow>
      snd (hydration_steady_response fmt scipy_root_h osmosis m)
        = Inl (Exception ''ERROR: Solver did not converge''))"
  by (simp add: initial_response_def steady_response_def hydration_steady_response_def Let_def)

theorem nonconvergence_asymmetry_witness:
  "initial_response example_base (stub_root_scalar \<lparr>converged = False, root = 1\<rparr>) example
     = Inr ([''ERROR: solver for initial response did not converge''], None,
            snd (initial_fun example_base (101 / 100) (snd (initial_fun example_base 1 example)))) \<and>
   steady_response example_base (stub_root \<lparr>success = False, x = (1, 1)\<rparr>) example example_view
     = Inr ([''ERROR: solver for initial response did not converge''], None,
            snd (steady_fun example_base example (11 / 10, 1) example_view)) \<and>
   snd (hydration_steady_response (\<lambda>spec v. []) (stub_root \<lparr>success = False, x = (1, 1)\<rparr>)
          example_osmosis example_mechanics)
     = Inl (Exception ''ERROR: Solver did not converge'')"
proof -
  have e: "physical_lam_z example = 1" by (simp add: example_def)
  have i: "run_solver (stub_root_scalar \<lparr>converged = False, root = 1\<rparr>
              (physical_lam_z example) (physical_lam_z example * (101 / 100)))
        (\<lambda>lz s. Inr (initial_fun example_base lz s)) example
      = Inr (\<lparr>converged = False, root = 1\<rparr>,
             snd (initial_fun example_base (101 / 100) (snd (initial_fun example_base 1 example))))"
    by (simp add: stub_root_scalar_def e split_beta)
  have s: "run_solver (stub_root \<lparr>success = False, x = (1, 1)\<rparr> (11 / 10, physical_lam_z example))
        (\<lambda>X v. Inr (steady_fun example_base example X v)) example_view
      = Inr (\<lparr>success = False, x = (1, 1)\<rparr>,
             snd (steady_fun example_base example (11 / 10, 1) example_view))"
    by (simp add: stub_root_def e split_beta)
  have h: "run_solver (stub_root \<lparr>success = False, x = (1, 1)\<rparr> (11 / 10, 11 / 10))
        (\<lambda>X s. case hydration_fun example_osmosis example_mechanics X of
                  Inl e \<Rightarrow> Inl e | Inr y \<Rightarrow> Inr (y, s)) ()
      = Inr (\<lparr>success = False, x = (1, 1)\<rparr>, ())"
    by (simp add: stub_root_def hydration_fun_def Let_def)
  show ?thesis
    using nonconvergence_asymmetry[of "stub_root_scalar \<lparr>converged = False, root = 1\<rparr>"
        example example_base "\<lparr>converged = False, root = 1\<rparr>"
        "snd (initial_fun example_base (101 / 100) (snd (initial_fun example_base 1 example)))"
        "stub_root \<lparr>success = False, x = (1, 1)\<rparr>" example_view
        "\<lparr>success = False, x = (1, 1)\<rparr>"
        "snd (steady_fun example_base example (11 / 10, 1) example_view)"
        "stub_root \<lparr>success = False, x = (1, 1)\<rparr>" example_osmosis example_mechanics
        "\<lparr>success = False, x = (1, 1)\<rparr>" "\<lambda>spec v. []"]
      i s h by simp
qed

subsection \<open>C8: calling the builders again\<close>

text \<open>
  Claim C8. With the state unchanged, a second call of \<open>build_residual\<close> leaves the
  same \<open>FUN\<close>, and \<open>build_jacobian\<close> assembles the same \<open>JAC\<close> after two calls of
  \<open>build_residual\<close> as after one, also when it has itself run in between.
\<close>

theorem builders_idempotent:
  "FUN (build_residual (build_residual s)) = FUN (build_residual s) \<and>
   JAC (build_jacobian (build_residual (build_residual s)))
     = JAC (build_jacobian (build_residual s)) \<and>
   JAC (build_jacobian (build_residual (build_jacobian (build_residual s))))
     = JAC (build_jacobian (build_residual s))"
  by (simp add: build_residual_idem build_residual_after_jacobian build_jacobian_idem)

subsection \<open>C10: displacement from stretch\<close>

text \<open>
  Claim C10. When its search succeeds at \<open>(lam_r, lam_z)\<close>,
  \<open>ForceControlled.steady_response\<close> stores \<open>lam_r\<close> times the grid of the solution
  as displacement, which at \<open>lam_r = 1\<close> is the grid itself; \<open>initial_response\<close>
  stores \<open>(1 / sqrt lam_z - 1)\<close> times the grid, which at \<open>lam_z = 1\<close> is zero.
\<close>

theorem displacement_conventions:
  "(run_solver (scipy_root (11 / 10, physical_lam_z s))
        (\<lambda>X v. Inr (steady_fun base s X v)) v = Inr (res, v') \<and> success res \<longrightarrow>
      (\<exists>out sol v''. steady_response base scipy_root s v = Inr (out, Some sol, v'') \<and>
         sol_u sol = fst (x res) *\<^sub>R sol_r (new_solution base) \<and>
         (fst (x res) = 1 \<longrightarrow> sol_u sol = sol_r (new_solution base)))) \<and>
   (run_solver (scipy_root_scalar (physical_lam_z s) (physical_lam_z s * (101 / 100)))
        (\<lambda>lz s. Inr (initial_fun base lz s)) s = Inr (res2, s') \<and> converged res2 \<longrightarrow>
      (\<exists>out sol s''. initial_response base scipy_root_scalar s = Inr (out, Some sol, s'') \<and>
         sol_u sol = (1 / sqrt (root res2) - 1) *\<^sub>R r s \<and>
         (root res2 = 1 \<longrightarrow> sol_u sol = np_zeros (length (r s)))))"
proof (intro conjI impI)
  assume "run_solver (scipy_root (11 / 10, physical_lam_z s))
        (\<lambda>X v. Inr (steady_fun base s X v)) v = Inr (res, v') \<and> success res"
  then show "\<exists>out sol v''. steady_response base scipy_root s v = Inr (out, Some sol, v'') \<and>
         sol_u sol = fst (x res) *\<^sub>R sol_r (new_solution base) \<and>
         (fst (x res) = 1 \<longrightarrow> sol_u sol = sol_r (new_solution base))"
    by (simp add: steady_response_def Let_def scaleR_list_one)
next
  assume a: "run_solver (scipy_root_scalar (physical_lam_z s) (physical_lam_z s * (101 / 100)))
        (\<lambda>lz s. Inr (initial_fun base lz s)) s = Inr (res2, s') \<and> converged res2"
  then have "r s' = r s" by (blast dest: run_initial_fun_r)
  moreover have "(0::real) *\<^sub>R r s = np_zeros (length (r s))"
    by (rule scaleR_list_zero)
  ultimately show "\<exists>out sol s''. initial_response base scipy_root_scalar s = Inr (out, Some sol, s'') \<and>
         sol_u sol = (1 / sqrt (root res2) - 1) *\<^sub>R r s \<and>
         (root res2 = 1 \<longrightarrow> sol_u sol = np_zeros (length (r s)))"
    using a by (simp add: initial_response_def Let_def initial_fun_def split_beta)
qed

theorem displacement_conventions_witness:
  "(\<exists>out sol v''.
      steady_response example_base (stub_root \<lparr>success = True, x = (1, 1)\<rparr>) example example_view
        = Inr (out, Some sol, v'') \<and> sol_u sol = [0, 1 / 2, 1]) \<and>
   (\<exists>out sol s''.
      initial_response example_base (stub_root_scalar \<lparr>converged = True, root = 1\<rparr>) example
        = Inr (out, Some sol, s'') \<and> sol_u sol = [0, 0, 0])"
proof -
  have e: "physical_lam_z example = 1" "r example = [0, 1 / 2, 1]"
    "sol_r (new_solution example_base) = [0, 1 / 2, 1]"
    by (simp_all add: example_def example_base_def example_solution_def)
  have i: "run_solver (stub_root_scalar \<lparr>converged = True, root = 1\<rparr>
              (physical_lam_z example) (physical_lam_z example * (101 / 100)))
        (\<lambda>lz s. Inr (initial_fun example_base lz s)) example
      = Inr (\<lparr>converged = True, root = 1\<rparr>,
             snd (initial_fun example_base (101 / 100) (snd (initial_fun example_base 1 example))))"
    by (simp add: stub_root_scalar_def e split_beta)
  have s: "run_solver (stub_root \<lparr>success = True, x = (1, 1)\<rparr> (11 / 10, physical_lam_z example))
        (\<lambda>X v. Inr (steady_fun example_base example X v)) example_view
      = Inr (\<lparr>success = True, x = (1, 1)\<rparr>,
             snd (steady_fun example_base example (11 / 10, 1) example_view))"
    by (simp add: stub_root_def e split_beta)
  show ?thesis
    using displacement_conventions[of "stub_root \<lparr>success = True, x = (1, 1)\<rparr>" example
        example_base example_view "\<lparr>success = True, x = (1, 1)\<rparr>"
        "snd (steady_fun example_base example (11 / 10, 1) example_view)"
        "stub_root_scalar \<lparr>converged = True, root = 1\<rparr>" "\<lparr>converged = True, root = 1\<rparr>"
        "snd (initial_fun example_base (101 / 100) (snd (initial_fun example_base 1 example)))"]
      i s by (simp add: e np_zeros_def numeral_3_eq_3) blast
qed

end
